theory Spec2Isabelle
  imports Main
begin

section \<open>Python values, dictionaries and strings\<close>

text \<open>
  The values that flow through \<^verbatim>\<open>modules/llm_integration.py\<close> are the ones the JSON
  decoder produces, plus \<^verbatim>\<open>None\<close>. A \<^verbatim>\<open>dict\<close> keeps its insertion order, so it is an
  association list (keys are strings, as in every decoded JSON object). A float is kept as
  its decimal literal: the code under study never computes with one.
  The texts that the module only hands on, compares or tests for emptiness (the prompt,
  the credential, the replies, the log templates) are HOL strings. The model name is the one
  string whose characters the module looks at (\<^verbatim>\<open>strip\<close>, \<^verbatim>\<open>lower\<close>): it is a list of
  Unicode code points, each a natural number.
\<close>

datatype pyval =
    PNone
  | PBool bool
  | PInt int
  | PFloat string
  | PStr string
  | PList "pyval list"
  | PDict "(string \<times> pyval) list"

type_synonym dict = "(string \<times> pyval) list"

type_synonym ustring = "nat list"

text \<open>The code points of a string literal of the source.\<close>

definition codepoints :: "string \<Rightarrow> ustring" where
  "codepoints s = map of_char s"

text \<open>\<^verbatim>\<open>d.setdefault(k, v)\<close>: a key that is present keeps its value (whatever it is); an absent
  key is inserted last.\<close>

definition setdefault :: "string \<Rightarrow> pyval \<Rightarrow> dict \<Rightarrow> dict" where
  "setdefault k v d = (case map_of d k of None \<Rightarrow> d @ [(k, v)] | Some _ \<Rightarrow> d)"

text \<open>\<^verbatim>\<open>a or b\<close> on strings: the empty string is falsy.\<close>

definition py_or :: "'a list \<Rightarrow> 'a list \<Rightarrow> 'a list" where
  "py_or a b = (if a = [] then b else a)"

text \<open>The characters that \<^verbatim>\<open>str.strip()\<close> removes, by code point: TAB to CR, FS to US,
  SPACE, NEL, NBSP, U+1680, U+2000 to U+200A, U+2028, U+2029, U+202F, U+205F and U+3000.\<close>

definition isspace :: "nat \<Rightarrow> bool" where
  "isspace n =
     ((9 \<le> n \<and> n \<le> 13) \<or> (28 \<le> n \<and> n \<le> 32) \<or> n = 133 \<or> n = 160 \<or> n = 5760 \<or>
      (8192 \<le> n \<and> n \<le> 8202) \<or> n = 8232 \<or> n = 8233 \<or> n = 8239 \<or> n = 8287 \<or> n = 12288)"

text \<open>\<^verbatim>\<open>s.strip()\<close>: leading and trailing whitespace removed.\<close>

definition strip :: "ustring \<Rightarrow> ustring" where
  "strip s = rev (dropWhile isspace (rev (dropWhile isspace s)))"

text \<open>\<^verbatim>\<open>s.lower()\<close>. Below U+0080 the interpreter moves A to Z up by 32 and leaves the
  rest; there the cased characters are the letters, and the case-ignorable ones are the
  apostrophe, the full stop, the colon, the circumflex and the grave accent. From U+0080 on
  it follows its Unicode tables, which are not part of the repository: they are the
  parameter \<open>tbl\<close>, giving for a code point its lower-case form (one or more code points)
  and whether it is cased and whether it is case-ignorable.\<close>

record unicode_tables =
  tolower_full :: "nat \<Rightarrow> ustring"
  is_cased :: "nat \<Rightarrow> bool"
  is_case_ignorable :: "nat \<Rightarrow> bool"

definition lower_char :: "unicode_tables \<Rightarrow> nat \<Rightarrow> ustring" where
  "lower_char tbl n =
     (if n < 128 then [if 65 \<le> n \<and> n \<le> 90 then n + 32 else n] else tolower_full tbl n)"

definition cased :: "unicode_tables \<Rightarrow> nat \<Rightarrow> bool" where
  "cased tbl n =
     (if n < 128 then (65 \<le> n \<and> n \<le> 90) \<or> (97 \<le> n \<and> n \<le> 122) else is_cased tbl n)"

definition case_ignorable :: "unicode_tables \<Rightarrow> nat \<Rightarrow> bool" where
  "case_ignorable tbl n =
     (if n < 128 then n = 39 \<or> n = 46 \<or> n = 58 \<or> n = 94 \<or> n = 96
      else is_case_ignorable tbl n)"

text \<open>The one character whose lower-case form depends on its neighbours is the capital
  sigma, U+03A3: it becomes the final sigma U+03C2 when the nearest character before it
  that is not case-ignorable exists and is cased, and the nearest such character after it
  does not exist or is not cased; otherwise it becomes U+03C3. \<open>before\<close> is the text before
  the sigma, nearest character first.\<close>

definition final_sigma :: "unicode_tables \<Rightarrow> ustring \<Rightarrow> ustring \<Rightarrow> bool" where
  "final_sigma tbl before after =
     ((case dropWhile (case_ignorable tbl) before of [] \<Rightarrow> False | c # _ \<Rightarrow> cased tbl c) \<and>
      (case dropWhile (case_ignorable tbl) after of [] \<Rightarrow> True | c # _ \<Rightarrow> \<not> cased tbl c))"

fun lower_from :: "unicode_tables \<Rightarrow> ustring \<Rightarrow> ustring \<Rightarrow> ustring" where
  "lower_from tbl before [] = []"
| "lower_from tbl before (c # after) =
     (if c = 931 then [if final_sigma tbl before after then 962 else 963]
      else lower_char tbl c) @ lower_from tbl (c # before) after"

definition lower :: "unicode_tables \<Rightarrow> ustring \<Rightarrow> ustring" where
  "lower tbl s = lower_from tbl [] s"

section \<open>Exceptions, effects and the outside world\<close>

text \<open>The exceptions below are all subclasses of \<^verbatim>\<open>Exception\<close>, which is what every
  \<^verbatim>\<open>except Exception\<close> of the module catches. \<open>LibraryError\<close> stands for any other
  exception class a library raises (authentication, rate limit, ...), by name.\<close>

datatype exn =
    TypeError
  | IndexError
  | AttributeError
  | ImportError
  | JSONDecodeError
  | RecursionError
  | Timeout
  | ConnectionError
  | HTTPError nat
  | LibraryError string

datatype level = INFO | WARNING | ERROR

datatype logarg = ArgStr ustring | ArgExn exn

datatype client = Client string

text \<open>What the module does to the outside, in the order it does it: a record handed to the
  logger (level, message template, arguments), the construction of a hosted-API client
  (class name, key), and the three backend calls.\<close>

datatype event =
    Log level string "logarg list"
  | NewClient string string
  | ChatCompletionsCreate client dict
  | MessagesCreate client dict
  | HttpPost string dict nat

text \<open>A computation either returns a value or raises, and leaves a trace of events.\<close>

type_synonym 'a io = "(exn + 'a) \<times> event list"

definition ret :: "'a \<Rightarrow> 'a io" where
  "ret x = (Inr x, [])"

definition raise :: "exn \<Rightarrow> 'a io" where
  "raise e = (Inl e, [])"

definition bind :: "'a io \<Rightarrow> ('a \<Rightarrow> 'b io) \<Rightarrow> 'b io" where
  "bind m f = (case m of
       (Inl e, t) \<Rightarrow> (Inl e, t)
     | (Inr x, t) \<Rightarrow> (case f x of (r, t') \<Rightarrow> (r, t @ t')))"

text \<open>\<^verbatim>\<open>try: body  except Exception as e: handler\<close>\<close>

definition try_except :: "'a io \<Rightarrow> (exn \<Rightarrow> 'a io) \<Rightarrow> 'a io" where
  "try_except body handler = (case body of
       (Inl e, t) \<Rightarrow> (case handler e of (r, t') \<Rightarrow> (r, t @ t'))
     | (Inr x, t) \<Rightarrow> (Inr x, t))"

text \<open>An effect on the outside: the event is recorded, the outcome is the world's.\<close>

definition call :: "event \<Rightarrow> exn + 'a \<Rightarrow> 'a io" where
  "call ev outcome = (outcome, [ev])"

definition logger_info :: "string \<Rightarrow> logarg list \<Rightarrow> unit io" where
  "logger_info msg args = (Inr (), [Log INFO msg args])"

definition logger_warning :: "string \<Rightarrow> logarg list \<Rightarrow> unit io" where
  "logger_warning msg args = (Inr (), [Log WARNING msg args])"

definition logger_exception :: "string \<Rightarrow> logarg list \<Rightarrow> unit io" where
  "logger_exception msg args = (Inr (), [Log ERROR msg args])"

text \<open>Replies of the backends. A chat completion is read as
  \<^verbatim>\<open>completion.choices[0].message.content\<close> (a string, or \<^verbatim>\<open>None\<close>); an Anthropic message
  is a list of blocks, of which only some have a \<^verbatim>\<open>text\<close> attribute; an HTTP response has a
  status and a body that \<^verbatim>\<open>resp.json()\<close> decodes or fails to decode.\<close>

datatype chat_message = ChatMessage (content: pyval)
datatype choice = Choice (message: chat_message)
datatype completion = Completion (choices: "choice list")

datatype block = TextBlock string | OtherBlock
datatype anthropic_message = AnthropicMessage (msg_content: "block list")

record response =
  status_code :: nat
  json_body :: "exn + pyval"

text \<open>Everything the module reads from outside itself: the environment variables, the
  standard JSON decoder, the two client libraries, the HTTP library, and the interpreter's
  Unicode tables for the code points from U+0080 on. Each of the others is a function of
  what the module passes to it, returning a value or the exception raised.\<close>

record world =
  unicode_data :: unicode_tables
  getenv :: "string \<Rightarrow> string option"
  json_loads :: "string \<Rightarrow> exn + pyval"
  openai_new :: "string \<Rightarrow> exn + client"
  openai_create :: "client \<Rightarrow> dict \<Rightarrow> exn + completion"
  anthropic_new :: "string \<Rightarrow> exn + client"
  anthropic_create :: "client \<Rightarrow> dict \<Rightarrow> exn + anthropic_message"
  requests_post :: "string \<Rightarrow> dict \<Rightarrow> nat \<Rightarrow> exn + response"

text \<open>\<^verbatim>\<open>os.getenv(name, "")\<close>\<close>

definition os_getenv :: "world \<Rightarrow> string \<Rightarrow> string" where
  "os_getenv w name = (case getenv w name of None \<Rightarrow> [] | Some v \<Rightarrow> v)"

text \<open>\<^verbatim>\<open>json.loads(x)\<close>: anything but a string is a \<^verbatim>\<open>TypeError\<close>.\<close>

definition py_json_loads :: "world \<Rightarrow> pyval \<Rightarrow> pyval io" where
  "py_json_loads w x = (case x of PStr s \<Rightarrow> (json_loads w s, []) | _ \<Rightarrow> raise TypeError)"

text \<open>\<^verbatim>\<open>xs[0]\<close>\<close>

definition index0 :: "'a list \<Rightarrow> 'a io" where
  "index0 xs = (case xs of [] \<Rightarrow> raise IndexError | x # _ \<Rightarrow> ret x)"

text \<open>\<^verbatim>\<open>data.get(k, default)\<close>: only a dict has the method.\<close>

definition py_get :: "pyval \<Rightarrow> string \<Rightarrow> pyval \<Rightarrow> pyval io" where
  "py_get data k dflt = (case data of
       PDict d \<Rightarrow> ret (case map_of d k of None \<Rightarrow> dflt | Some v \<Rightarrow> v)
     | _ \<Rightarrow> raise AttributeError)"

text \<open>\<^verbatim>\<open>resp.raise_for_status()\<close>: statuses 400 to 599 raise.\<close>

definition raise_for_status :: "response \<Rightarrow> unit io" where
  "raise_for_status resp =
     (if 400 \<le> status_code resp \<and> status_code resp < 600
      then raise (HTTPError (status_code resp)) else ret ())"

section \<open>The module\<close>

subsection \<open>MockProvider\<close>

definition example :: dict where
  "example =
    [(''summary'', PStr ''Most requirements appear implemented with minor gaps.''),
     (''traceability_matrix'', PDict
        [(''R-1'', PStr ''IMPLEMENTED''),
         (''R-2'', PStr ''PARTIALLY_IMPLEMENTED''),
         (''R-3'', PStr ''NOT_IMPLEMENTED'')]),
     (''missing_requirements'', PList [PStr ''R-3'']),
     (''suggestions'', PList
        [PStr ''Add comprehensive error handling and unit tests for requirement R-2.'',
         PStr ''Implement data validation workflow for R-3.'']),
     (''detailed_analysis'', PStr ''R-1 references found in module A; R-2 partially covered in module B with missing edge cases; R-3 no references found.'')]"

definition MockProvider_analyze :: "string \<Rightarrow> dict io" where
  "MockProvider_analyze prompt =
     bind (logger_info ''Returning mock LLM response.'' []) (\<lambda>_. ret example)"

subsection \<open>\_parse\_llm\_json\<close>

text \<open>The five \<^verbatim>\<open>setdefault\<close> calls, in the order of the source.\<close>

definition ensure_required_keys :: "dict \<Rightarrow> dict" where
  "ensure_required_keys result =
     setdefault ''detailed_analysis'' (PStr '''')
    (setdefault ''suggestions'' (PList [])
    (setdefault ''missing_requirements'' (PList [])
    (setdefault ''traceability_matrix'' (PDict [])
    (setdefault ''summary'' (PStr '''') result))))"

text \<open>The dict built after the \<^verbatim>\<open>try\<close> block, with the raw text in \<^verbatim>\<open>detailed_analysis\<close>.\<close>

definition heuristic :: "pyval \<Rightarrow> dict" where
  "heuristic text =
     [(''summary'', PStr ''Model returned non-JSON output.''),
      (''traceability_matrix'', PDict []),
      (''missing_requirements'', PList []),
      (''suggestions'', PList [PStr ''Ensure the model is instructed to output strict JSON.'']),
      (''detailed_analysis'', text)]"

text \<open>The \<^verbatim>\<open>try\<close> block either returns from the function (\<open>Some\<close>) or falls through
  (\<open>None\<close>), also when the decoder raised; what follows the block runs only then.\<close>

definition parse_llm_json :: "world \<Rightarrow> pyval \<Rightarrow> dict io" where
  "parse_llm_json w text =
     bind
       (try_except
          (bind (py_json_loads w text) (\<lambda>result.
             case result of
               PDict d \<Rightarrow> ret (Some (ensure_required_keys d))
             | _ \<Rightarrow> ret None))
          (\<lambda>e. ret None))
       (\<lambda>returned.
          case returned of
            Some result \<Rightarrow> ret result
          | None \<Rightarrow>
              bind (logger_warning ''LLM did not return valid JSON. Applying heuristic parse.'' [])
                (\<lambda>_. ret (heuristic text)))"

subsection \<open>OpenAIProvider\<close>

datatype openai_provider = OpenAIProvider (openai_client: "client option")

text \<open>\<^verbatim>\<open>__init__\<close>: the import and the construction are inside the \<^verbatim>\<open>try\<close>; on failure the
  client is \<^verbatim>\<open>None\<close>.\<close>

definition OpenAIProvider_init :: "world \<Rightarrow> string \<Rightarrow> openai_provider io" where
  "OpenAIProvider_init w api_key =
     try_except
       (bind (call (NewClient ''OpenAI'' api_key) (openai_new w api_key))
          (\<lambda>c. ret (OpenAIProvider (Some c))))
       (\<lambda>e. bind (logger_exception ''Failed to initialize OpenAI client: %s'' [ArgExn e])
          (\<lambda>_. ret (OpenAIProvider None)))"

definition openai_kwargs :: "string \<Rightarrow> dict" where
  "openai_kwargs prompt =
    [(''model'', PStr ''gpt-4o''),
     (''messages'', PList
        [PDict [(''role'', PStr ''system''),
                (''content'', PStr ''You are a strict requirements verification assistant.'')],
         PDict [(''role'', PStr ''user''), (''content'', PStr prompt)]]),
     (''temperature'', PFloat ''0.2'')]"

definition OpenAIProvider_analyze :: "world \<Rightarrow> openai_provider \<Rightarrow> string \<Rightarrow> dict io" where
  "OpenAIProvider_analyze w self prompt =
     (case openai_client self of
        None \<Rightarrow>
          bind (logger_warning ''OpenAI client unavailable; falling back to mock.'' [])
            (\<lambda>_. MockProvider_analyze prompt)
      | Some c \<Rightarrow>
          try_except
            (bind (call (ChatCompletionsCreate c (openai_kwargs prompt))
                        (openai_create w c (openai_kwargs prompt))) (\<lambda>completion.
             bind (index0 (choices completion)) (\<lambda>first.
             parse_llm_json w (content (message first)))))
            (\<lambda>e. bind (logger_exception ''OpenAI analysis failed: %s'' [ArgExn e])
               (\<lambda>_. MockProvider_analyze prompt)))"

subsection \<open>AnthropicProvider\<close>

datatype anthropic_provider = AnthropicProvider (anthropic_client: "client option")

definition AnthropicProvider_init :: "world \<Rightarrow> string \<Rightarrow> anthropic_provider io" where
  "AnthropicProvider_init w api_key =
     try_except
       (bind (call (NewClient ''Anthropic'' api_key) (anthropic_new w api_key))
          (\<lambda>c. ret (AnthropicProvider (Some c))))
       (\<lambda>e. bind (logger_exception ''Failed to initialize Anthropic client: %s'' [ArgExn e])
          (\<lambda>_. ret (AnthropicProvider None)))"

definition anthropic_kwargs :: "string \<Rightarrow> dict" where
  "anthropic_kwargs prompt =
    [(''model'', PStr ''claude-3-5-sonnet-20241022''),
     (''max_tokens'', PInt 2000),
     (''temperature'', PFloat ''0.2''),
     (''system'', PStr ''You are a strict requirements verification assistant.''),
     (''messages'', PList [PDict [(''role'', PStr ''user''), (''content'', PStr prompt)]])]"

text \<open>\<^verbatim>\<open>"".join(block.text for block in msg.content if hasattr(block, "text"))\<close>\<close>

fun join_text :: "block list \<Rightarrow> string" where
  "join_text [] = []"
| "join_text (TextBlock t # bs) = t @ join_text bs"
| "join_text (OtherBlock # bs) = join_text bs"

definition AnthropicProvider_analyze :: "world \<Rightarrow> anthropic_provider \<Rightarrow> string \<Rightarrow> dict io" where
  "AnthropicProvider_analyze w self prompt =
     (case anthropic_client self of
        None \<Rightarrow>
          bind (logger_warning ''Anthropic client unavailable; falling back to mock.'' [])
            (\<lambda>_. MockProvider_analyze prompt)
      | Some c \<Rightarrow>
          try_except
            (bind (call (MessagesCreate c (anthropic_kwargs prompt))
                        (anthropic_create w c (anthropic_kwargs prompt))) (\<lambda>msg.
             parse_llm_json w (PStr (join_text (msg_content msg)))))
            (\<lambda>e. bind (logger_exception ''Anthropic analysis failed: %s'' [ArgExn e])
               (\<lambda>_. MockProvider_analyze prompt)))"

subsection \<open>OllamaProvider\<close>

datatype ollama_provider = OllamaProvider (base_url: string) (model: string)

text \<open>The default arguments of \<^verbatim>\<open>__init__\<close>.\<close>

definition OllamaProvider_default :: ollama_provider where
  "OllamaProvider_default = OllamaProvider ''http://localhost:11434'' ''llama3''"

definition ollama_payload :: "ollama_provider \<Rightarrow> string \<Rightarrow> dict" where
  "ollama_payload self prompt =
     [(''model'', PStr (model self)), (''prompt'', PStr prompt), (''stream'', PBool False)]"

definition OllamaProvider_analyze :: "world \<Rightarrow> ollama_provider \<Rightarrow> string \<Rightarrow> dict io" where
  "OllamaProvider_analyze w self prompt =
     try_except
       (bind (call (HttpPost (base_url self @ ''/api/generate'') (ollama_payload self prompt) 120)
                   (requests_post w (base_url self @ ''/api/generate'') (ollama_payload self prompt) 120))
          (\<lambda>resp.
        bind (raise_for_status resp) (\<lambda>_.
        bind (json_body resp, []) (\<lambda>data.
        bind (py_get data ''response'' (PStr '''')) (\<lambda>text.
        parse_llm_json w text)))))
       (\<lambda>e. bind (logger_exception ''Ollama analysis failed (is Ollama running?): %s'' [ArgExn e])
          (\<lambda>_. MockProvider_analyze prompt))"

subsection \<open>analyze\_with\_llm\<close>

text \<open>\<^verbatim>\<open>api_key or os.getenv(var, "")\<close>, then the test \<^verbatim>\<open>not key\<close> on the result.\<close>

definition analyze_with_llm :: "world \<Rightarrow> string \<Rightarrow> ustring \<Rightarrow> string \<Rightarrow> dict io" where
  "analyze_with_llm w prompt model_name0 api_key =
     (let model_name = lower (unicode_data w) (strip (py_or model_name0 [])) in
      if model_name = codepoints ''gpt-4o'' then
        (let key = py_or api_key (os_getenv w ''OPENAI_API_KEY'') in
         if key = [] then
           bind (logger_info ''No OpenAI API key provided; using mock response.'' [])
             (\<lambda>_. MockProvider_analyze prompt)
         else
           bind (OpenAIProvider_init w key) (\<lambda>p. OpenAIProvider_analyze w p prompt))
      else if model_name = codepoints ''claude 3.5 sonnet'' then
        (let key = py_or api_key (os_getenv w ''ANTHROPIC_API_KEY'') in
         if key = [] then
           bind (logger_info ''No Anthropic API key provided; using mock response.'' [])
             (\<lambda>_. MockProvider_analyze prompt)
         else
           bind (AnthropicProvider_init w key) (\<lambda>p. AnthropicProvider_analyze w p prompt))
      else if model_name = codepoints ''local llama 3'' then
        OllamaProvider_analyze w OllamaProvider_default prompt
      else
        bind (logger_info ''Unknown model '%s'; defaulting to mock.'' [ArgStr model_name])
          (\<lambda>_. MockProvider_analyze prompt))"

section \<open>Notions used to state the properties\<close>

text \<open>A result is complete when the five fields of the schema are among its keys.\<close>

definition has_required_keys :: "dict \<Rightarrow> bool" where
  "has_required_keys r =
     (map_of r ''summary'' \<noteq> None \<and> map_of r ''traceability_matrix'' \<noteq> None \<and>
      map_of r ''missing_requirements'' \<noteq> None \<and> map_of r ''suggestions'' \<noteq> None \<and>
      map_of r ''detailed_analysis'' \<noteq> None)"

text \<open>The Latin alphabet, each capital letter with its small letter.\<close>

definition ascii_letters :: "(nat \<times> nat) list" where
  "ascii_letters =
     zip (codepoints ''ABCDEFGHIJKLMNOPQRSTUVWXYZ'') (codepoints ''abcdefghijklmnopqrstuvwxyz'')"

text \<open>Two code points that are equal, or the capital and the small form of one letter of
  that alphabet.\<close>

definition ascii_case_variant :: "nat \<Rightarrow> nat \<Rightarrow> bool" where
  "ascii_case_variant c d =
     (c = d \<or> (c, d) \<in> set ascii_letters \<or> (d, c) \<in> set ascii_letters)"

text \<open>Letter case beyond that alphabet, as far as it is needed here: U+017F (LATIN SMALL
  LETTER LONG S) is a small letter whose capital form is S, and which case-folds to s.\<close>

definition case_variant :: "nat \<Rightarrow> nat \<Rightarrow> bool" where
  "case_variant c d =
     (ascii_case_variant c d \<or> (c = 83 \<and> d = 383) \<or> (c = 383 \<and> d = 83))"

text \<open>The events that reach a backend or construct a client; logging is not one.\<close>

fun is_external :: "event \<Rightarrow> bool" where
  "is_external (Log _ _ _) = False"
| "is_external _ = True"

subsection \<open>Concrete worlds for the examples\<close>

text \<open>What the standard decoder answers on the texts used in the examples; this table
  refuses every other text.\<close>

definition demo_loads :: "string \<Rightarrow> exn + pyval" where
  "demo_loads s =
     (if s = ''{\"summary\": \"ok\"}'' then
        Inr (PDict [(''summary'', PStr ''ok'')])
      else if s = ''{\"verdict\": \"pass\", \"traceability_matrix\": \"none\"}'' then
        Inr (PDict [(''verdict'', PStr ''pass''), (''traceability_matrix'', PStr ''none'')])
      else if s = ''{\"summary\": \"done\", \"traceability_matrix\": {\"R-1\": \"IMPLEMENTED\"}, \"missing_requirements\": [], \"suggestions\": [\"none\"], \"detailed_analysis\": \"all found\"}'' then
        Inr (PDict
          [(''summary'', PStr ''done''),
           (''traceability_matrix'', PDict [(''R-1'', PStr ''IMPLEMENTED'')]),
           (''missing_requirements'', PList []),
           (''suggestions'', PList [PStr ''none'']),
           (''detailed_analysis'', PStr ''all found'')])
      else if s = ''[1, 2]'' then Inr (PList [PInt 1, PInt 2])
      else if s = ''42'' then Inr (PInt 42)
      else Inl JSONDecodeError)"

text \<open>The interpreter's tables on U+0080 to U+00FF and on U+017F. The capital letters
  U+00C0 to U+00DE, without the multiplication sign U+00D7, move up by 32; U+017F is a small
  letter already. The cased code points are the letters and the two ordinal indicators, the
  case-ignorable ones are U+00A8, U+00AD, U+00AF, U+00B4, U+00B7 and U+00B8. The examples
  use no other code point from U+0080 on; on those these tables leave the code point alone
  and answer no.\<close>

definition demo_lower :: "nat \<Rightarrow> ustring" where
  "demo_lower n =
     (if (192 \<le> n \<and> n \<le> 214) \<or> (216 \<le> n \<and> n \<le> 222) then [n + 32] else [n])"

definition demo_cased :: "nat \<Rightarrow> bool" where
  "demo_cased n =
     (n = 170 \<or> n = 181 \<or> n = 186 \<or> (192 \<le> n \<and> n \<le> 214) \<or> (216 \<le> n \<and> n \<le> 246) \<or>
      (248 \<le> n \<and> n \<le> 255) \<or> n = 383)"

definition demo_case_ignorable :: "nat \<Rightarrow> bool" where
  "demo_case_ignorable n =
     (n = 168 \<or> n = 173 \<or> n = 175 \<or> n = 180 \<or> n = 183 \<or> n = 184)"

definition demo_tables :: unicode_tables where
  "demo_tables =
     \<lparr>tolower_full = demo_lower, is_cased = demo_cased,
      is_case_ignorable = demo_case_ignorable\<rparr>"

text \<open>A machine with no credentials in the environment, where both client libraries are
  installed and every backend call times out.\<close>

definition offline_world :: world where
  "offline_world =
     \<lparr>unicode_data = demo_tables,
      getenv = (\<lambda>_. None),
      json_loads = demo_loads,
      openai_new = (\<lambda>k. Inr (Client k)),
      openai_create = (\<lambda>_ _. Inl Timeout),
      anthropic_new = (\<lambda>k. Inr (Client k)),
      anthropic_create = (\<lambda>_ _. Inl Timeout),
      requests_post = (\<lambda>_ _ _. Inl Timeout)\<rparr>"

text \<open>The same machine with a local daemon that answers every request with status 500.\<close>

definition failing_daemon_world :: world where
  "failing_daemon_world =
     offline_world\<lparr>requests_post :=
       (\<lambda>_ _ _. Inr \<lparr>status_code = 500, json_body = Inl JSONDecodeError\<rparr>)\<rparr>"

text \<open>The same machine with a local daemon that answers every request with the status
  \<open>st\<close> and a body whose \<^verbatim>\<open>response\<close> field is the text \<^verbatim>\<open>{"summary": "ok"}\<close>.\<close>

definition daemon_world :: "nat \<Rightarrow> world" where
  "daemon_world st =
     offline_world\<lparr>requests_post :=
       (\<lambda>_ _ _. Inr \<lparr>status_code = st,
                      json_body = Inr (PDict [(''response'', PStr ''{\"summary\": \"ok\"}'')])\<rparr>)\<rparr>"

text \<open>A machine where every backend answers with the text \<^verbatim>\<open>{"summary": "ok"}\<close> and the
  variables of both hosted providers are set to the empty string.\<close>

definition online_world :: world where
  "online_world =
     \<lparr>unicode_data = demo_tables,
      getenv = (\<lambda>name. if name = ''OPENAI_API_KEY'' \<or> name = ''ANTHROPIC_API_KEY''
                         then Some [] else None),
      json_loads = demo_loads,
      openai_new = (\<lambda>k. Inr (Client k)),
      openai_create = (\<lambda>_ _.
        Inr (Completion [Choice (ChatMessage (PStr ''{\"summary\": \"ok\"}''))])),
      anthropic_new = (\<lambda>k. Inr (Client k)),
      anthropic_create = (\<lambda>_ _.
        Inr (AnthropicMessage [TextBlock ''{\"summary\": '', OtherBlock, TextBlock ''\"ok\"}''])),
      requests_post = (\<lambda>_ _ _.
        Inr \<lparr>status_code = 200,
             json_body = Inr (PDict [(''response'', PStr ''{\"summary\": \"ok\"}'')])\<rparr>)\<rparr>"

text \<open>The same machine without the Anthropic library: the import fails.\<close>

definition no_anthropic_world :: world where
  "no_anthropic_world = online_world\<lparr>anthropic_new := (\<lambda>k. Inl ImportError)\<rparr>"

section \<open>Dictionaries and the normaliser\<close>

lemma map_of_setdefault:
  "map_of (setdefault k v d) k' =
     (if k' = k then (case map_of d k of None \<Rightarrow> Some v | Some u \<Rightarrow> Some u) else map_of d k')"
  by (auto simp: setdefault_def map_of_append map_add_def split: option.splits)

lemma setdefault_present: "map_of d k = Some u \<Longrightarrow> setdefault k v d = d"
  by (simp add: setdefault_def)

lemma setdefault_extends: "\<exists>extra. setdefault k v d = d @ extra"
  by (simp add: setdefault_def split: option.splits)

lemma ensure_required_keys_extends: "\<exists>extra. ensure_required_keys d = d @ extra"
proof -
  obtain e1 where 1: "setdefault ''summary'' (PStr '''') d = d @ e1"
    using setdefault_extends by blast
  obtain e2 where 2: "setdefault ''traceability_matrix'' (PDict []) (d @ e1) = (d @ e1) @ e2"
    using setdefault_extends by blast
  obtain e3 where 3: "setdefault ''missing_requirements'' (PList []) ((d @ e1) @ e2) = ((d @ e1) @ e2) @ e3"
    using setdefault_extends by blast
  obtain e4 where 4: "setdefault ''suggestions'' (PList []) (((d @ e1) @ e2) @ e3) = (((d @ e1) @ e2) @ e3) @ e4"
    using setdefault_extends by blast
  obtain e5 where 5: "setdefault ''detailed_analysis'' (PStr '''') ((((d @ e1) @ e2) @ e3) @ e4) = ((((d @ e1) @ e2) @ e3) @ e4) @ e5"
    using setdefault_extends by blast
  have "ensure_required_keys d = d @ (e1 @ e2 @ e3 @ e4 @ e5)"
    unfolding ensure_required_keys_def 1 2 3 4 5 by simp
  then show ?thesis by blast
qed

lemma setdefault_keeps:
  "map_of d k = Some v \<Longrightarrow> map_of (setdefault k' v' d) k = Some v"
  by (auto simp: map_of_setdefault)

lemma ensure_required_keys_keeps:
  "map_of d k = Some v \<Longrightarrow> map_of (ensure_required_keys d) k = Some v"
  by (simp add: ensure_required_keys_def setdefault_keeps)

lemma ensure_required_keys_other:
  "k \<noteq> ''summary'' \<Longrightarrow> k \<noteq> ''traceability_matrix'' \<Longrightarrow> k \<noteq> ''missing_requirements'' \<Longrightarrow>
   k \<noteq> ''suggestions'' \<Longrightarrow> k \<noteq> ''detailed_analysis'' \<Longrightarrow>
   map_of (ensure_required_keys d) k = map_of d k"
  by (simp add: ensure_required_keys_def map_of_setdefault)

lemma ensure_required_keys_summary:
  "map_of (ensure_required_keys d) ''summary'' =
     Some (case map_of d ''summary'' of None \<Rightarrow> PStr '''' | Some v \<Rightarrow> v)"
  by (simp add: ensure_required_keys_def map_of_setdefault split: option.splits)

lemma ensure_required_keys_traceability_matrix:
  "map_of (ensure_required_keys d) ''traceability_matrix'' =
     Some (case map_of d ''traceability_matrix'' of None \<Rightarrow> PDict [] | Some v \<Rightarrow> v)"
  by (simp add: ensure_required_keys_def map_of_setdefault split: option.splits)

lemma ensure_required_keys_missing_requirements:
  "map_of (ensure_required_keys d) ''missing_requirements'' =
     Some (case map_of d ''missing_requirements'' of None \<Rightarrow> PList [] | Some v \<Rightarrow> v)"
  by (simp add: ensure_required_keys_def map_of_setdefault split: option.splits)

lemma ensure_required_keys_suggestions:
  "map_of (ensure_required_keys d) ''suggestions'' =
     Some (case map_of d ''suggestions'' of None \<Rightarrow> PList [] | Some v \<Rightarrow> v)"
  by (simp add: ensure_required_keys_def map_of_setdefault split: option.splits)

lemma ensure_required_keys_detailed_analysis:
  "map_of (ensure_required_keys d) ''detailed_analysis'' =
     Some (case map_of d ''detailed_analysis'' of None \<Rightarrow> PStr '''' | Some v \<Rightarrow> v)"
  by (simp add: ensure_required_keys_def map_of_setdefault split: option.splits)

lemmas ensure_required_keys_fields =
  ensure_required_keys_summary ensure_required_keys_traceability_matrix
  ensure_required_keys_missing_requirements ensure_required_keys_suggestions
  ensure_required_keys_detailed_analysis

lemma has_required_keys_ensure: "has_required_keys (ensure_required_keys d)"
  by (simp add: has_required_keys_def ensure_required_keys_fields)

lemma has_required_keys_heuristic: "has_required_keys (heuristic x)"
  by (simp add: has_required_keys_def heuristic_def)

lemma has_required_keys_example: "has_required_keys example"
  by (simp add: has_required_keys_def example_def)

lemma ensure_required_keys_complete:
  "has_required_keys d \<Longrightarrow> ensure_required_keys d = d"
  by (auto simp: has_required_keys_def ensure_required_keys_def setdefault_present)

lemma parse_llm_json_mapping:
  "json_loads w s = Inr (PDict d) \<Longrightarrow>
   parse_llm_json w (PStr s) = (Inr (ensure_required_keys d), [])"
  by (simp add: parse_llm_json_def py_json_loads_def bind_def try_except_def ret_def)

lemma parse_llm_json_fallback:
  "\<forall>d. json_loads w s \<noteq> Inr (PDict d) \<Longrightarrow>
   parse_llm_json w (PStr s) =
     (Inr (heuristic (PStr s)),
      [Log WARNING ''LLM did not return valid JSON. Applying heuristic parse.'' []])"
  by (cases "json_loads w s")
     (auto simp: parse_llm_json_def py_json_loads_def bind_def try_except_def ret_def
        logger_warning_def split: pyval.splits)

lemma parse_llm_json_not_str:
  "\<forall>s. x \<noteq> PStr s \<Longrightarrow>
   parse_llm_json w x =
     (Inr (heuristic x),
      [Log WARNING ''LLM did not return valid JSON. Applying heuristic parse.'' []])"
  by (cases x)
     (auto simp: parse_llm_json_def py_json_loads_def bind_def try_except_def ret_def raise_def
        logger_warning_def)

lemma parse_llm_json_returns:
  "\<exists>r t. parse_llm_json w x = (Inr r, t) \<and> has_required_keys r"
proof (cases "\<exists>s d. x = PStr s \<and> json_loads w s = Inr (PDict d)")
  case True
  then show ?thesis
    using parse_llm_json_mapping has_required_keys_ensure by blast
next
  case False
  show ?thesis
  proof (cases "\<exists>s. x = PStr s")
    case True
    then obtain s where "x = PStr s" by blast
    with False have "\<forall>d. json_loads w s \<noteq> Inr (PDict d)" by simp
    then show ?thesis
      using parse_llm_json_fallback \<open>x = PStr s\<close> has_required_keys_heuristic by blast
  next
    case False
    then show ?thesis
      using parse_llm_json_not_str has_required_keys_heuristic by blast
  qed
qed

subsection \<open>The decoder's answers in the example worlds\<close>

lemma demo_loads_not_json: "json_loads offline_world ''not json at all'' = Inl JSONDecodeError"
  by (simp add: offline_world_def demo_loads_def)

lemma demo_loads_empty: "json_loads offline_world '''' = Inl JSONDecodeError"
  by (simp add: offline_world_def demo_loads_def)

lemma demo_loads_array: "json_loads offline_world ''[1, 2]'' = Inr (PList [PInt 1, PInt 2])"
  by (simp add: offline_world_def demo_loads_def)

lemma demo_loads_number: "json_loads offline_world ''42'' = Inr (PInt 42)"
  by (simp add: offline_world_def demo_loads_def)

lemma demo_loads_summary_ok:
  "json_loads offline_world ''{\"summary\": \"ok\"}'' = Inr (PDict [(''summary'', PStr ''ok'')])"
  by (simp add: offline_world_def demo_loads_def)

lemma demo_loads_verdict:
  "json_loads offline_world ''{\"verdict\": \"pass\", \"traceability_matrix\": \"none\"}'' =
     Inr (PDict [(''verdict'', PStr ''pass''), (''traceability_matrix'', PStr ''none'')])"
  by (simp add: offline_world_def demo_loads_def)

lemma demo_loads_complete:
  "json_loads offline_world ''{\"summary\": \"done\", \"traceability_matrix\": {\"R-1\": \"IMPLEMENTED\"}, \"missing_requirements\": [], \"suggestions\": [\"none\"], \"detailed_analysis\": \"all found\"}'' =
     Inr (PDict
       [(''summary'', PStr ''done''),
        (''traceability_matrix'', PDict [(''R-1'', PStr ''IMPLEMENTED'')]),
        (''missing_requirements'', PList []),
        (''suggestions'', PList [PStr ''none'']),
        (''detailed_analysis'', PStr ''all found'')])"
  by (simp add: offline_world_def demo_loads_def)

section \<open>Properties of the normaliser\<close>

text \<open>
  \<^bold>\<open>C2.\<close> For every input string, whatever the decoder does with it (decode it to any
  value, or raise any exception), \<^verbatim>\<open>_parse_llm_json\<close> returns and does not raise, and what
  it returns is a mapping with the five fields \<^verbatim>\<open>summary\<close>, \<^verbatim>\<open>traceability_matrix\<close>,
  \<^verbatim>\<open>missing_requirements\<close>, \<^verbatim>\<open>suggestions\<close> and \<^verbatim>\<open>detailed_analysis\<close>.
\<close>

theorem parse_llm_json_never_raises:
  "\<exists>r t. parse_llm_json w (PStr s) = (Inr r, t) \<and> has_required_keys r"
  by (rule parse_llm_json_returns)

text \<open>The empty string, an array and a bare number, in a concrete world.\<close>

theorem parse_llm_json_never_raises_witness:
  "(\<exists>r t. parse_llm_json offline_world (PStr '''') = (Inr r, t) \<and> has_required_keys r) \<and>
   (\<exists>r t. parse_llm_json offline_world (PStr ''[1, 2]'') = (Inr r, t) \<and> has_required_keys r) \<and>
   (\<exists>r t. parse_llm_json offline_world (PStr ''42'') = (Inr r, t) \<and> has_required_keys r)"
  using parse_llm_json_never_raises [of offline_world "''''"]
    parse_llm_json_never_raises [of offline_world "''[1, 2]''"]
    parse_llm_json_never_raises [of offline_world "''42''"]
  by blast

text \<open>
  \<^bold>\<open>C6.\<close> When decoding the input string fails, or gives anything but a mapping,
  \<^verbatim>\<open>_parse_llm_json\<close> returns the degraded result: the fixed summary message, an empty
  traceability matrix, no missing requirements, the one fixed suggestion, and the raw text
  itself as the detailed analysis (and it logs one warning).
\<close>

theorem parse_llm_json_degraded:
  assumes "\<forall>d. json_loads w s \<noteq> Inr (PDict d)"
  shows "parse_llm_json w (PStr s) =
    (Inr [(''summary'', PStr ''Model returned non-JSON output.''),
          (''traceability_matrix'', PDict []),
          (''missing_requirements'', PList []),
          (''suggestions'', PList [PStr ''Ensure the model is instructed to output strict JSON.'']),
          (''detailed_analysis'', PStr s)],
     [Log WARNING ''LLM did not return valid JSON. Applying heuristic parse.'' []])"
  using parse_llm_json_fallback [OF assms] by (simp add: heuristic_def)

text \<open>The text \<^verbatim>\<open>not json at all\<close>, which the decoder refuses, and the array \<^verbatim>\<open>[1, 2]\<close>,
  which it decodes to a list.\<close>

theorem parse_llm_json_degraded_witness:
  "json_loads offline_world ''not json at all'' = Inl JSONDecodeError \<and>
   fst (parse_llm_json offline_world (PStr ''not json at all'')) =
     Inr [(''summary'', PStr ''Model returned non-JSON output.''),
          (''traceability_matrix'', PDict []),
          (''missing_requirements'', PList []),
          (''suggestions'', PList [PStr ''Ensure the model is instructed to output strict JSON.'']),
          (''detailed_analysis'', PStr ''not json at all'')] \<and>
   json_loads offline_world ''[1, 2]'' = Inr (PList [PInt 1, PInt 2]) \<and>
   fst (parse_llm_json offline_world (PStr ''[1, 2]'')) =
     Inr [(''summary'', PStr ''Model returned non-JSON output.''),
          (''traceability_matrix'', PDict []),
          (''missing_requirements'', PList []),
          (''suggestions'', PList [PStr ''Ensure the model is instructed to output strict JSON.'']),
          (''detailed_analysis'', PStr ''[1, 2]'')]"
proof -
  have a: "\<forall>d. json_loads offline_world ''not json at all'' \<noteq> Inr (PDict d)"
    by (simp add: demo_loads_not_json)
  have b: "\<forall>d. json_loads offline_world ''[1, 2]'' \<noteq> Inr (PDict d)"
    by (simp add: demo_loads_array)
  show ?thesis
    using parse_llm_json_degraded [OF a] parse_llm_json_degraded [OF b]
      demo_loads_not_json demo_loads_array
    by simp
qed

text \<open>
  \<^bold>\<open>C7.\<close> When the input string decodes to a mapping, \<^verbatim>\<open>_parse_llm_json\<close> returns a
  mapping (and logs nothing) in which each of the five required fields has the value it had
  in the decoded mapping, of whatever type, if it was present there, and its default
  otherwise: the empty string for \<^verbatim>\<open>summary\<close> and \<^verbatim>\<open>detailed_analysis\<close>, the empty mapping
  for \<^verbatim>\<open>traceability_matrix\<close>, the empty list for \<^verbatim>\<open>missing_requirements\<close> and
  \<^verbatim>\<open>suggestions\<close>.
\<close>

theorem parse_llm_json_fills_defaults:
  assumes "json_loads w s = Inr (PDict d)"
  shows "\<exists>r. parse_llm_json w (PStr s) = (Inr r, []) \<and>
    map_of r ''summary'' = Some (case map_of d ''summary'' of None \<Rightarrow> PStr '''' | Some v \<Rightarrow> v) \<and>
    map_of r ''traceability_matrix'' =
      Some (case map_of d ''traceability_matrix'' of None \<Rightarrow> PDict [] | Some v \<Rightarrow> v) \<and>
    map_of r ''missing_requirements'' =
      Some (case map_of d ''missing_requirements'' of None \<Rightarrow> PList [] | Some v \<Rightarrow> v) \<and>
    map_of r ''suggestions'' =
      Some (case map_of d ''suggestions'' of None \<Rightarrow> PList [] | Some v \<Rightarrow> v) \<and>
    map_of r ''detailed_analysis'' =
      Some (case map_of d ''detailed_analysis'' of None \<Rightarrow> PStr '''' | Some v \<Rightarrow> v)"
  using parse_llm_json_mapping [OF assms] by (simp add: ensure_required_keys_fields)

text \<open>The raw text \<^verbatim>\<open>{"summary": "ok"}\<close>: the summary is kept and the other four fields
  get their defaults. In the second text the traceability matrix is a string where a
  mapping is expected: it is kept as it is.\<close>

theorem parse_llm_json_fills_defaults_witness:
  "json_loads offline_world ''{\"summary\": \"ok\"}'' = Inr (PDict [(''summary'', PStr ''ok'')]) \<and>
   (\<exists>r. parse_llm_json offline_world (PStr ''{\"summary\": \"ok\"}'') = (Inr r, []) \<and>
     map_of r ''summary'' = Some (PStr ''ok'') \<and>
     map_of r ''traceability_matrix'' = Some (PDict []) \<and>
     map_of r ''missing_requirements'' = Some (PList []) \<and>
     map_of r ''suggestions'' = Some (PList []) \<and>
     map_of r ''detailed_analysis'' = Some (PStr '''')) \<and>
   (\<exists>r. parse_llm_json offline_world
          (PStr ''{\"verdict\": \"pass\", \"traceability_matrix\": \"none\"}'') = (Inr r, []) \<and>
     map_of r ''summary'' = Some (PStr '''') \<and>
     map_of r ''traceability_matrix'' = Some (PStr ''none''))"
proof -
  have a: "\<exists>r. parse_llm_json offline_world (PStr ''{\"summary\": \"ok\"}'') = (Inr r, []) \<and>
     map_of r ''summary'' = Some (PStr ''ok'') \<and>
     map_of r ''traceability_matrix'' = Some (PDict []) \<and>
     map_of r ''missing_requirements'' = Some (PList []) \<and>
     map_of r ''suggestions'' = Some (PList []) \<and>
     map_of r ''detailed_analysis'' = Some (PStr [])"
    using parse_llm_json_fills_defaults [OF demo_loads_summary_ok] by simp
  have b: "\<exists>r. parse_llm_json offline_world
          (PStr ''{\"verdict\": \"pass\", \"traceability_matrix\": \"none\"}'') = (Inr r, []) \<and>
     map_of r ''summary'' = Some (PStr []) \<and>
     map_of r ''traceability_matrix'' = Some (PStr ''none'')"
    using parse_llm_json_fills_defaults [OF demo_loads_verdict] by auto
  from a b demo_loads_summary_ok show ?thesis by simp
qed

text \<open>
  \<^bold>\<open>C8.\<close> Normalising is the identity on a result that is already complete: when the
  input string is the serialisation of a mapping \<open>d\<close> (the decoder maps it to \<open>d\<close>) and
  \<open>d\<close> has the five required fields, \<^verbatim>\<open>_parse_llm_json\<close> returns exactly \<open>d\<close>, keys and
  values in their order, and logs nothing.
\<close>

theorem parse_llm_json_idempotent:
  assumes "json_loads w s = Inr (PDict d)" and "has_required_keys d"
  shows "parse_llm_json w (PStr s) = (Inr d, [])"
  using parse_llm_json_mapping [OF assms(1)] ensure_required_keys_complete [OF assms(2)]
  by simp

theorem parse_llm_json_idempotent_witness:
  "has_required_keys
     [(''summary'', PStr ''done''),
      (''traceability_matrix'', PDict [(''R-1'', PStr ''IMPLEMENTED'')]),
      (''missing_requirements'', PList []),
      (''suggestions'', PList [PStr ''none'']),
      (''detailed_analysis'', PStr ''all found'')] \<and>
   parse_llm_json offline_world (PStr ''{\"summary\": \"done\", \"traceability_matrix\": {\"R-1\": \"IMPLEMENTED\"}, \"missing_requirements\": [], \"suggestions\": [\"none\"], \"detailed_analysis\": \"all found\"}'') =
     (Inr [(''summary'', PStr ''done''),
           (''traceability_matrix'', PDict [(''R-1'', PStr ''IMPLEMENTED'')]),
           (''missing_requirements'', PList []),
           (''suggestions'', PList [PStr ''none'']),
           (''detailed_analysis'', PStr ''all found'')], [])"
proof -
  have h: "has_required_keys
     [(''summary'', PStr ''done''),
      (''traceability_matrix'', PDict [(''R-1'', PStr ''IMPLEMENTED'')]),
      (''missing_requirements'', PList []),
      (''suggestions'', PList [PStr ''none'']),
      (''detailed_analysis'', PStr ''all found'')]"
    by (simp add: has_required_keys_def)
  show ?thesis
    using parse_llm_json_idempotent [OF demo_loads_complete h] h by simp
qed

text \<open>
  \<^bold>\<open>C10.\<close> When the input string decodes to a mapping, the result of
  \<^verbatim>\<open>_parse_llm_json\<close> is that mapping with zero or more entries added after it: every key
  of the decoded mapping, in the schema or not, is a key of the result with the same value.
  So the result can have keys outside the five required ones.
\<close>

theorem parse_llm_json_keeps_pairs:
  assumes "json_loads w s = Inr (PDict d)"
  shows "\<exists>r extra. parse_llm_json w (PStr s) = (Inr r, []) \<and> r = d @ extra \<and>
    (\<forall>k v. map_of d k = Some v \<longrightarrow> map_of r k = Some v)"
proof -
  obtain extra where e: "ensure_required_keys d = d @ extra"
    using ensure_required_keys_extends by blast
  have "\<forall>k v. map_of d k = Some v \<longrightarrow> map_of (ensure_required_keys d) k = Some v"
    by (simp add: ensure_required_keys_keeps)
  with e parse_llm_json_mapping [OF assms] show ?thesis by blast
qed

text \<open>The key \<^verbatim>\<open>verdict\<close> is not in the schema; it is in the result, which has six keys.\<close>

theorem parse_llm_json_keeps_pairs_witness:
  "json_loads offline_world ''{\"verdict\": \"pass\", \"traceability_matrix\": \"none\"}'' =
     Inr (PDict [(''verdict'', PStr ''pass''), (''traceability_matrix'', PStr ''none'')]) \<and>
   (\<exists>r extra.
      parse_llm_json offline_world
        (PStr ''{\"verdict\": \"pass\", \"traceability_matrix\": \"none\"}'') = (Inr r, []) \<and>
      r = [(''verdict'', PStr ''pass''), (''traceability_matrix'', PStr ''none'')] @ extra \<and>
      map_of r ''verdict'' = Some (PStr ''pass'') \<and>
      map_of r ''traceability_matrix'' = Some (PStr ''none''))"
proof -
  obtain r extra where
    r: "parse_llm_json offline_world
          (PStr ''{\"verdict\": \"pass\", \"traceability_matrix\": \"none\"}'') = (Inr r, [])"
      "r = [(''verdict'', PStr ''pass''), (''traceability_matrix'', PStr ''none'')] @ extra"
      "\<forall>k v. map_of [(''verdict'', PStr ''pass''), (''traceability_matrix'', PStr ''none'')] k = Some v
         \<longrightarrow> map_of r k = Some v"
    using parse_llm_json_keeps_pairs [OF demo_loads_verdict] by blast
  have "map_of r ''verdict'' = Some (PStr ''pass'')"
    using r(3) by simp
  moreover have "map_of r ''traceability_matrix'' = Some (PStr ''none'')"
    using r(3) by simp
  ultimately show ?thesis
    using r(1,2) demo_loads_verdict by blast
qed

section \<open>The providers always return\<close>

lemma MockProvider_analyze_eq:
  "MockProvider_analyze prompt = (Inr example, [Log INFO ''Returning mock LLM response.'' []])"
  by (simp add: MockProvider_analyze_def bind_def logger_info_def ret_def)

lemma parse_llm_json_complete:
  "parse_llm_json w x = (Inr r, t) \<Longrightarrow> has_required_keys r"
  using parse_llm_json_returns [of w x] by auto

lemma bind_returns:
  "bind m f = (Inr r, t) \<Longrightarrow> \<exists>x t1 t2. m = (Inr x, t1) \<and> f x = (Inr r, t2)"
  by (auto simp: bind_def split: prod.splits sum.splits)

lemma fallback_to_mock:
  "bind (logger_exception msg [ArgExn e]) (\<lambda>_. MockProvider_analyze prompt) =
     (Inr example, [Log ERROR msg [ArgExn e], Log INFO ''Returning mock LLM response.'' []])"
  by (simp add: MockProvider_analyze_eq bind_def logger_exception_def)

lemma try_except_mock_returns:
  assumes "\<And>r t. body = (Inr r, t) \<Longrightarrow> has_required_keys r"
  shows "\<exists>r t. try_except body
           (\<lambda>e. bind (logger_exception msg [ArgExn e]) (\<lambda>_. MockProvider_analyze prompt)) = (Inr r, t)
         \<and> has_required_keys r"
proof (cases body)
  case (Pair res t)
  show ?thesis
  proof (cases res)
    case (Inl e)
    with Pair show ?thesis
      by (simp add: try_except_def fallback_to_mock has_required_keys_example)
  next
    case (Inr r)
    with Pair assms show ?thesis
      by (simp add: try_except_def)
  qed
qed

lemma warn_then_mock:
  "bind (logger_warning msg []) (\<lambda>_. MockProvider_analyze prompt) =
     (Inr example, [Log WARNING msg [], Log INFO ''Returning mock LLM response.'' []])"
  by (simp add: MockProvider_analyze_eq bind_def logger_warning_def)

lemma info_then_mock:
  "bind (logger_info msg args) (\<lambda>_. MockProvider_analyze prompt) =
     (Inr example, [Log INFO msg args, Log INFO ''Returning mock LLM response.'' []])"
  by (simp add: MockProvider_analyze_eq bind_def logger_info_def)

lemma OpenAIProvider_analyze_returns:
  "\<exists>r t. OpenAIProvider_analyze w self prompt = (Inr r, t) \<and> has_required_keys r"
proof (cases "openai_client self")
  case None
  then show ?thesis
    by (simp add: OpenAIProvider_analyze_def warn_then_mock has_required_keys_example)
next
  case (Some c)
  have "\<exists>r t. try_except
      (bind (call (ChatCompletionsCreate c (openai_kwargs prompt))
                  (openai_create w c (openai_kwargs prompt))) (\<lambda>completion.
       bind (index0 (choices completion)) (\<lambda>first.
       parse_llm_json w (content (message first)))))
      (\<lambda>e. bind (logger_exception ''OpenAI analysis failed: %s'' [ArgExn e])
         (\<lambda>_. MockProvider_analyze prompt)) = (Inr r, t) \<and> has_required_keys r"
    by (rule try_except_mock_returns) (blast dest: bind_returns parse_llm_json_complete)
  with Some show ?thesis
    by (simp add: OpenAIProvider_analyze_def)
qed

lemma AnthropicProvider_analyze_returns:
  "\<exists>r t. AnthropicProvider_analyze w self prompt = (Inr r, t) \<and> has_required_keys r"
proof (cases "anthropic_client self")
  case None
  then show ?thesis
    by (simp add: AnthropicProvider_analyze_def warn_then_mock has_required_keys_example)
next
  case (Some c)
  have "\<exists>r t. try_except
      (bind (call (MessagesCreate c (anthropic_kwargs prompt))
                  (anthropic_create w c (anthropic_kwargs prompt))) (\<lambda>msg.
       parse_llm_json w (PStr (join_text (msg_content msg)))))
      (\<lambda>e. bind (logger_exception ''Anthropic analysis failed: %s'' [ArgExn e])
         (\<lambda>_. MockProvider_analyze prompt)) = (Inr r, t) \<and> has_required_keys r"
    by (rule try_except_mock_returns) (blast dest: bind_returns parse_llm_json_complete)
  with Some show ?thesis
    by (simp add: AnthropicProvider_analyze_def)
qed

lemma OllamaProvider_analyze_returns:
  "\<exists>r t. OllamaProvider_analyze w self prompt = (Inr r, t) \<and> has_required_keys r"
  unfolding OllamaProvider_analyze_def
  by (rule try_except_mock_returns) (blast dest: bind_returns parse_llm_json_complete)

lemma OpenAIProvider_init_returns: "\<exists>p t. OpenAIProvider_init w key = (Inr p, t)"
  by (cases "openai_new w key")
     (simp_all add: OpenAIProvider_init_def try_except_def bind_def call_def ret_def
        logger_exception_def)

lemma AnthropicProvider_init_returns: "\<exists>p t. AnthropicProvider_init w key = (Inr p, t)"
  by (cases "anthropic_new w key")
     (simp_all add: AnthropicProvider_init_def try_except_def bind_def call_def ret_def
        logger_exception_def)

lemma bind_both_return:
  assumes "\<exists>x t. m = (Inr x, t)" and "\<And>x. \<exists>r t. f x = (Inr r, t) \<and> P r"
  shows "\<exists>r t. bind m f = (Inr r, t) \<and> P r"
proof -
  from assms(1) obtain x t1 where m: "m = (Inr x, t1)" by blast
  from assms(2) obtain r t2 where f: "f x = (Inr r, t2)" "P r" by blast
  from m f show ?thesis by (simp add: bind_def)
qed

section \<open>Trimming and case\<close>

lemma py_or_empty: "py_or a [] = a"
  by (simp add: py_or_def)

lemma strip_padding:
  assumes "list_all isspace l" and "list_all isspace r"
  shows "strip (l @ s @ r) = strip s"
proof -
  have l: "dropWhile isspace (l @ s @ r) = dropWhile isspace (s @ r)"
    using assms(1) by (simp add: list_all_iff dropWhile_append2)
  have r: "dropWhile isspace (rev r @ xs) = dropWhile isspace xs" for xs
    using assms(2) by (intro dropWhile_append2) (simp add: list_all_iff)
  show ?thesis
  proof (cases "list_all isspace s")
    case True
    then have "dropWhile isspace (s @ r) = []" and "dropWhile isspace s = []"
      using assms(2) by (auto simp: list_all_iff)
    then show ?thesis
      unfolding strip_def l by (simp only:)
  next
    case False
    then have "dropWhile isspace (s @ r) = dropWhile isspace s @ r"
      by (auto simp: list_all_iff dropWhile_append1)
    then show ?thesis
      unfolding strip_def l by (simp only: rev_append r)
  qed
qed

text \<open>A pair of the alphabet: a capital letter and the code point 32 above it.\<close>

lemma ascii_letters_pair:
  "(c, d) \<in> set ascii_letters \<Longrightarrow> 65 \<le> c \<and> c \<le> 90 \<and> d = c + 32"
  by (auto simp: ascii_letters_def codepoints_def)

lemma ascii_pair_lower_char:
  assumes "(c, d) \<in> set ascii_letters"
  shows "lower_char tbl c = [d]" and "lower_char tbl d = [d]"
  using ascii_letters_pair [OF assms] by (auto simp: lower_char_def)

lemma ascii_pair_not_space:
  assumes "(c, d) \<in> set ascii_letters"
  shows "\<not> isspace c" and "\<not> isspace d"
  using ascii_letters_pair [OF assms] by (auto simp: isspace_def)

lemma ascii_case_variant_lower_char:
  "ascii_case_variant c d \<Longrightarrow> lower_char tbl c = lower_char tbl d"
  unfolding ascii_case_variant_def
  using ascii_pair_lower_char [of c d tbl] ascii_pair_lower_char [of d c tbl] by auto

lemma ascii_case_variant_isspace: "ascii_case_variant c d \<Longrightarrow> isspace c = isspace d"
  unfolding ascii_case_variant_def
  using ascii_pair_not_space [of c d] ascii_pair_not_space [of d c] by auto

lemma ascii_case_variant_dropWhile:
  "list_all2 ascii_case_variant xs ys \<Longrightarrow>
   list_all2 ascii_case_variant (dropWhile isspace xs) (dropWhile isspace ys)"
  by (induction rule: list_all2_induct) (auto dest: ascii_case_variant_isspace)

lemma ascii_case_variant_strip:
  "list_all2 ascii_case_variant xs ys \<Longrightarrow> list_all2 ascii_case_variant (strip xs) (strip ys)"
  by (simp add: strip_def ascii_case_variant_dropWhile)

lemma ascii_case_variant_sigma: "ascii_case_variant c d \<Longrightarrow> (c = 931) = (d = 931)"
  unfolding ascii_case_variant_def
  using ascii_letters_pair [of c d] ascii_letters_pair [of d c] by auto

lemma ascii_case_variant_cased: "ascii_case_variant c d \<Longrightarrow> cased tbl c = cased tbl d"
  unfolding ascii_case_variant_def
  using ascii_letters_pair [of c d] ascii_letters_pair [of d c] by (auto simp: cased_def)

lemma ascii_case_variant_case_ignorable:
  "ascii_case_variant c d \<Longrightarrow> case_ignorable tbl c = case_ignorable tbl d"
  unfolding ascii_case_variant_def
  using ascii_letters_pair [of c d] ascii_letters_pair [of d c]
  by (auto simp: case_ignorable_def)

lemma ascii_case_variant_skip:
  "list_all2 ascii_case_variant xs ys \<Longrightarrow>
   list_all2 ascii_case_variant
     (dropWhile (case_ignorable tbl) xs) (dropWhile (case_ignorable tbl) ys)"
  by (induction rule: list_all2_induct) (auto dest: ascii_case_variant_case_ignorable)

lemma ascii_case_variant_nearest:
  assumes "list_all2 ascii_case_variant xs ys"
  shows "(case xs of [] \<Rightarrow> e | c # _ \<Rightarrow> f (cased tbl c)) =
         (case ys of [] \<Rightarrow> e | c # _ \<Rightarrow> f (cased tbl c))"
  using assms by (cases xs; cases ys) (auto dest: ascii_case_variant_cased [of _ _ tbl])

lemma ascii_case_variant_final_sigma:
  assumes "list_all2 ascii_case_variant bs bs'" and "list_all2 ascii_case_variant xs ys"
  shows "final_sigma tbl bs xs = final_sigma tbl bs' ys"
proof -
  have "(case dropWhile (case_ignorable tbl) bs of [] \<Rightarrow> False | c # _ \<Rightarrow> cased tbl c) =
      (case dropWhile (case_ignorable tbl) bs' of [] \<Rightarrow> False | c # _ \<Rightarrow> cased tbl c)"
    using ascii_case_variant_skip [OF assms(1), of tbl]
    by (rule ascii_case_variant_nearest [where f = "\<lambda>b. b"])
  moreover have
    "(case dropWhile (case_ignorable tbl) xs of [] \<Rightarrow> True | c # _ \<Rightarrow> \<not> cased tbl c) =
      (case dropWhile (case_ignorable tbl) ys of [] \<Rightarrow> True | c # _ \<Rightarrow> \<not> cased tbl c)"
    using ascii_case_variant_skip [OF assms(2), of tbl]
    by (rule ascii_case_variant_nearest [where f = "\<lambda>b. \<not> b"])
  ultimately show ?thesis
    unfolding final_sigma_def by (simp only:)
qed

lemma ascii_case_variant_lower_from:
  "list_all2 ascii_case_variant xs ys \<Longrightarrow> list_all2 ascii_case_variant bs bs' \<Longrightarrow>
   lower_from tbl bs xs = lower_from tbl bs' ys"
proof (induction arbitrary: bs bs' rule: list_all2_induct)
  case Nil
  then show ?case by simp
next
  case (Cons x xs y ys)
  have s: "(x = 931) = (y = 931)"
    using Cons.hyps(1) by (rule ascii_case_variant_sigma)
  have c: "lower_char tbl x = lower_char tbl y"
    using Cons.hyps(1) by (rule ascii_case_variant_lower_char)
  have f: "final_sigma tbl bs xs = final_sigma tbl bs' ys"
    using Cons.prems Cons.hyps(2) by (rule ascii_case_variant_final_sigma)
  have r: "lower_from tbl (x # bs) xs = lower_from tbl (y # bs') ys"
    using Cons.hyps(1) Cons.prems by (intro Cons.IH) simp
  show ?case
    using s c f r by simp
qed

lemma ascii_case_variant_lower:
  "list_all2 ascii_case_variant xs ys \<Longrightarrow> lower tbl xs = lower tbl ys"
  by (simp add: lower_def ascii_case_variant_lower_from)
subsection \<open>The names and the runs used in the examples\<close>

lemmas name_defs =
  strip_def lower_def lower_char_def isspace_def codepoints_def demo_tables_def demo_lower_def

lemma lower_gpt_4o:
  "lower demo_tables (strip (codepoints ''gpt-4o'')) = codepoints ''gpt-4o''"
  by (simp add: name_defs)

lemma lower_claude:
  "lower demo_tables (strip (codepoints ''claude 3.5 sonnet'')) = codepoints ''claude 3.5 sonnet''"
  by (simp add: name_defs)

lemma lower_claude_capitals:
  "lower demo_tables (strip (codepoints ''CLAUDE 3.5 SONNET'')) = codepoints ''claude 3.5 sonnet''"
  by (simp add: name_defs)

lemma lower_long_s:
  "lower demo_tables (strip (codepoints ''claude 3.5 '' @ [383] @ codepoints ''onnet'')) =
     codepoints ''claude 3.5 '' @ [383] @ codepoints ''onnet''"
  by (simp add: name_defs)

lemma lower_local_llama:
  "lower demo_tables (strip (codepoints ''Local Llama 3'')) = codepoints ''local llama 3''"
  by (simp add: name_defs)

lemma lower_mistral:
  "lower demo_tables (strip (codepoints '' Mistral-7B'')) = codepoints ''mistral-7b''"
  by (simp add: name_defs)

text \<open>The capital sigma after a letter, before a letter, between full stops after a
  letter, and alone.\<close>

lemma lower_sigma:
  "lower demo_tables (codepoints ''A'' @ [931]) = codepoints ''a'' @ [962]"
  "lower demo_tables ([931] @ codepoints ''a'') = [963] @ codepoints ''a''"
  "lower demo_tables (codepoints ''A.'' @ [931] @ codepoints ''.'') =
     codepoints ''a.'' @ [962] @ codepoints ''.''"
  "lower demo_tables [931] = [963]"
  by (simp_all add: name_defs final_sigma_def cased_def case_ignorable_def)

lemma long_s_variant:
  "list_all2 case_variant (codepoints ''CLAUDE 3.5 SONNET'')
     (codepoints ''claude 3.5 '' @ [383] @ codepoints ''onnet'')"
  by (simp add: case_variant_def ascii_case_variant_def ascii_letters_def codepoints_def)

lemma long_s_differs:
  "codepoints ''claude 3.5 '' @ [383] @ codepoints ''onnet'' \<noteq> codepoints ''gpt-4o''"
  "codepoints ''claude 3.5 '' @ [383] @ codepoints ''onnet'' \<noteq> codepoints ''claude 3.5 sonnet''"
  "codepoints ''claude 3.5 '' @ [383] @ codepoints ''onnet'' \<noteq> codepoints ''local llama 3''"
  by (simp_all add: codepoints_def)

lemma known_names_differ:
  "codepoints ''claude 3.5 sonnet'' \<noteq> codepoints ''gpt-4o''"
  "codepoints ''local llama 3'' \<noteq> codepoints ''gpt-4o''"
  "codepoints ''local llama 3'' \<noteq> codepoints ''claude 3.5 sonnet''"
  by (simp_all add: codepoints_def)

lemma demo_tables_worlds:
  "unicode_data offline_world = demo_tables" "unicode_data online_world = demo_tables"
  by (simp_all add: offline_world_def online_world_def)

lemma anthropic_online:
  "bind (AnthropicProvider_init online_world ''x'')
     (\<lambda>p. AnthropicProvider_analyze online_world p ''p'') =
     (Inr [(''summary'', PStr ''ok''),
           (''traceability_matrix'', PDict []),
           (''missing_requirements'', PList []),
           (''suggestions'', PList []),
           (''detailed_analysis'', PStr '''')],
      [NewClient ''Anthropic'' ''x'',
       MessagesCreate (Client ''x'') (anthropic_kwargs ''p'')])"
  by code_simp

lemma openai_online_hd:
  "hd (snd (bind (OpenAIProvider_init online_world ''x'')
     (\<lambda>p. OpenAIProvider_analyze online_world p ''p''))) = NewClient ''OpenAI'' ''x''"
  by code_simp

text \<open>A status that \<^verbatim>\<open>raise_for_status\<close> lets through, with a body that holds a result.\<close>

lemma OllamaProvider_analyze_unchecked_status:
  assumes "requests_post w (base_url self @ ''/api/generate'') (ollama_payload self prompt) 120 =
      Inr resp"
    and "status_code resp < 400 \<or> 600 \<le> status_code resp"
    and "json_body resp = Inr (PDict body)"
    and "map_of body ''response'' = Some (PStr s)"
    and "json_loads w s = Inr (PDict d)"
  shows "OllamaProvider_analyze w self prompt =
     (Inr (ensure_required_keys d),
      [HttpPost (base_url self @ ''/api/generate'') (ollama_payload self prompt) 120])"
proof -
  have "parse_llm_json w (PStr s) = (Inr (ensure_required_keys d), [])"
    using assms(5) by (rule parse_llm_json_mapping)
  then show ?thesis
    using assms(1-4)
    by (auto simp: OllamaProvider_analyze_def try_except_def bind_def call_def
        raise_for_status_def ret_def py_get_def)
qed

lemma daemon_world_answers:
  "requests_post (daemon_world st) url payload timeout =
     Inr \<lparr>status_code = st,
          json_body = Inr (PDict [(''response'', PStr ''{\"summary\": \"ok\"}'')])\<rparr>"
  "json_loads (daemon_world st) ''{\"summary\": \"ok\"}'' = Inr (PDict [(''summary'', PStr ''ok'')])"
  by (simp_all add: daemon_world_def offline_world_def demo_loads_def)

lemma ensure_required_keys_summary_ok:
  "ensure_required_keys [(''summary'', PStr ''ok'')] =
     [(''summary'', PStr ''ok''),
      (''traceability_matrix'', PDict []),
      (''missing_requirements'', PList []),
      (''suggestions'', PList []),
      (''detailed_analysis'', PStr '''')]"
  by (simp add: ensure_required_keys_def setdefault_def)

lemma daemon_world_unchecked_status:
  assumes "st < 400 \<or> 600 \<le> st"
  shows "OllamaProvider_analyze (daemon_world st) OllamaProvider_default ''p'' =
     (Inr [(''summary'', PStr ''ok''),
           (''traceability_matrix'', PDict []),
           (''missing_requirements'', PList []),
           (''suggestions'', PList []),
           (''detailed_analysis'', PStr '''')],
      [HttpPost ''http://localhost:11434/api/generate''
         (ollama_payload OllamaProvider_default ''p'') 120])"
  using OllamaProvider_analyze_unchecked_status
      [of "daemon_world st" OllamaProvider_default "''p''"
        "\<lparr>status_code = st,
           json_body = Inr (PDict [(''response'', PStr ''{\"summary\": \"ok\"}'')])\<rparr>"
        "[(''response'', PStr ''{\"summary\": \"ok\"}'')]" "''{\"summary\": \"ok\"}''"
        "[(''summary'', PStr ''ok'')]"]
    assms
  by (simp add: daemon_world_answers ensure_required_keys_summary_ok OllamaProvider_default_def)

section \<open>Properties of the providers and of the selector\<close>

text \<open>
  \<^bold>\<open>C1.\<close> \<^verbatim>\<open>analyze_with_llm\<close> never raises: for every prompt, model name and credential,
  and whatever the environment, the client libraries, the backends and the decoder do
  (return anything, or raise any exception), it returns a mapping, and that mapping has the
  five fields of an analysis result.
\<close>

theorem analyze_with_llm_never_raises:
  "\<exists>r t. analyze_with_llm w prompt model_name api_key = (Inr r, t) \<and> has_required_keys r"
proof -
  have openai: "\<exists>r t. bind (OpenAIProvider_init w key) (\<lambda>p. OpenAIProvider_analyze w p prompt) = (Inr r, t)
      \<and> has_required_keys r" for key
    by (rule bind_both_return [OF OpenAIProvider_init_returns OpenAIProvider_analyze_returns])
  have anthropic: "\<exists>r t. bind (AnthropicProvider_init w key) (\<lambda>p. AnthropicProvider_analyze w p prompt) = (Inr r, t)
      \<and> has_required_keys r" for key
    by (rule bind_both_return [OF AnthropicProvider_init_returns AnthropicProvider_analyze_returns])
  have mock: "\<exists>r t. bind (logger_info msg args) (\<lambda>_. MockProvider_analyze prompt) = (Inr r, t)
      \<and> has_required_keys r" for msg args
    by (simp add: info_then_mock has_required_keys_example)
  define n where "n = lower (unicode_data w) (strip (py_or model_name []))"
  consider "n = codepoints ''gpt-4o''"
    | "n \<noteq> codepoints ''gpt-4o''" "n = codepoints ''claude 3.5 sonnet''"
    | "n \<noteq> codepoints ''gpt-4o''" "n \<noteq> codepoints ''claude 3.5 sonnet''"
      "n = codepoints ''local llama 3''"
    | "n \<noteq> codepoints ''gpt-4o''" "n \<noteq> codepoints ''claude 3.5 sonnet''"
      "n \<noteq> codepoints ''local llama 3''"
    by blast
  then show ?thesis
  proof cases
    case 1
    then show ?thesis
      unfolding analyze_with_llm_def Let_def n_def [symmetric]
      using mock openai by (cases "py_or api_key (os_getenv w ''OPENAI_API_KEY'') = []") simp_all
  next
    case 2
    then show ?thesis
      unfolding analyze_with_llm_def Let_def n_def [symmetric]
      using mock anthropic
      by (cases "py_or api_key (os_getenv w ''ANTHROPIC_API_KEY'') = []") simp_all
  next
    case 3
    then show ?thesis
      unfolding analyze_with_llm_def Let_def n_def [symmetric]
      using OllamaProvider_analyze_returns by simp
  next
    case 4
    then show ?thesis
      unfolding analyze_with_llm_def Let_def n_def [symmetric]
      using mock by simp
  qed
qed

text \<open>The four branches on concrete machines: a hosted model with a credential where the
  call times out, a hosted model whose library is missing, the local daemon answering 500,
  and an unknown name.\<close>

theorem analyze_with_llm_never_raises_witness:
  "(\<exists>r t. analyze_with_llm offline_world ''p'' (codepoints ''GPT-4o'') ''x'' = (Inr r, t)
      \<and> has_required_keys r) \<and>
   (\<exists>r t. analyze_with_llm no_anthropic_world ''p'' (codepoints ''Claude 3.5 Sonnet'') ''x'' = (Inr r, t)
      \<and> has_required_keys r) \<and>
   (\<exists>r t. analyze_with_llm failing_daemon_world ''p'' (codepoints ''Local Llama 3'') '''' = (Inr r, t)
      \<and> has_required_keys r) \<and>
   (\<exists>r t. analyze_with_llm offline_world ''p'' (codepoints ''mistral'') '''' = (Inr r, t)
      \<and> has_required_keys r)"
  using analyze_with_llm_never_raises [of offline_world "''p''" "codepoints ''GPT-4o''" "''x''"]
    analyze_with_llm_never_raises
      [of no_anthropic_world "''p''" "codepoints ''Claude 3.5 Sonnet''" "''x''"]
    analyze_with_llm_never_raises
      [of failing_daemon_world "''p''" "codepoints ''Local Llama 3''" "''''"]
    analyze_with_llm_never_raises [of offline_world "''p''" "codepoints ''mistral''" "''''"]
  by blast

text \<open>
  \<^bold>\<open>C3.\<close> When the model name, trimmed and lower-cased, is none of \<^verbatim>\<open>gpt-4o\<close>,
  \<^verbatim>\<open>claude 3.5 sonnet\<close> and \<^verbatim>\<open>local llama 3\<close>, \<^verbatim>\<open>analyze_with_llm\<close> returns the fixed mock
  result, for every prompt and credential and on every machine. All it does besides is to
  log two lines: no client is constructed and no backend is called.
\<close>

theorem unknown_model_gives_mock:
  assumes "lower (unicode_data w) (strip model_name) \<noteq> codepoints ''gpt-4o''"
    and "lower (unicode_data w) (strip model_name) \<noteq> codepoints ''claude 3.5 sonnet''"
    and "lower (unicode_data w) (strip model_name) \<noteq> codepoints ''local llama 3''"
  shows "analyze_with_llm w prompt model_name api_key =
      (Inr example,
       [Log INFO ''Unknown model '%s'; defaulting to mock.''
          [ArgStr (lower (unicode_data w) (strip model_name))],
        Log INFO ''Returning mock LLM response.'' []]) \<and>
    filter is_external (snd (analyze_with_llm w prompt model_name api_key)) = []"
  using assms by (simp add: analyze_with_llm_def py_or_def info_then_mock)

theorem unknown_model_gives_mock_witness:
  "lower (unicode_data online_world) (strip (codepoints '' Mistral-7B'')) =
     codepoints ''mistral-7b'' \<and>
   analyze_with_llm online_world ''p'' (codepoints '' Mistral-7B'') ''x'' =
     (Inr example,
      [Log INFO ''Unknown model '%s'; defaulting to mock.'' [ArgStr (codepoints ''mistral-7b'')],
       Log INFO ''Returning mock LLM response.'' []])"
proof -
  have n: "lower (unicode_data online_world) (strip (codepoints '' Mistral-7B'')) =
      codepoints ''mistral-7b''"
    by (simp only: demo_tables_worlds lower_mistral)
  have a: "lower (unicode_data online_world) (strip (codepoints '' Mistral-7B'')) \<noteq>
      codepoints ''gpt-4o''"
    and b: "lower (unicode_data online_world) (strip (codepoints '' Mistral-7B'')) \<noteq>
      codepoints ''claude 3.5 sonnet''"
    and c: "lower (unicode_data online_world) (strip (codepoints '' Mistral-7B'')) \<noteq>
      codepoints ''local llama 3''"
    unfolding n by (simp_all add: codepoints_def)
  show ?thesis
    using unknown_model_gives_mock [OF a b c, of "''p''" "''x''"] n by simp
qed

text \<open>
  \<^bold>\<open>C4.\<close> For a model name that selects a hosted provider (\<^verbatim>\<open>gpt-4o\<close> or
  \<^verbatim>\<open>claude 3.5 sonnet\<close>, after trimming and lower-casing), an empty credential and the
  provider's environment variable (\<^verbatim>\<open>OPENAI_API_KEY\<close>, \<^verbatim>\<open>ANTHROPIC_API_KEY\<close>) unset or
  empty, \<^verbatim>\<open>analyze_with_llm\<close> returns exactly the mock result; it logs two lines,
  constructs no client and calls no backend.
\<close>

theorem hosted_without_credential_gives_mock:
  assumes "(lower (unicode_data w) (strip model_name) = codepoints ''gpt-4o'' \<and>
              var = ''OPENAI_API_KEY'' \<and>
              msg = ''No OpenAI API key provided; using mock response.'') \<or>
           (lower (unicode_data w) (strip model_name) = codepoints ''claude 3.5 sonnet'' \<and>
              var = ''ANTHROPIC_API_KEY'' \<and>
              msg = ''No Anthropic API key provided; using mock response.'')"
    and "getenv w var = None \<or> getenv w var = Some ''''"
  shows "analyze_with_llm w prompt model_name '''' =
      (Inr example, [Log INFO msg [], Log INFO ''Returning mock LLM response.'' []]) \<and>
    filter is_external (snd (analyze_with_llm w prompt model_name '''')) = []"
proof -
  have ne: "codepoints ''claude 3.5 sonnet'' \<noteq> codepoints ''gpt-4o''"
    by (simp add: codepoints_def)
  show ?thesis
    using assms ne
    by (auto simp: analyze_with_llm_def py_or_def os_getenv_def info_then_mock)
qed

text \<open>\<^verbatim>\<open>gpt-4o\<close> with the variable unset, and \<^verbatim>\<open>claude 3.5 sonnet\<close> with the variable set to
  the empty string.\<close>

theorem hosted_without_credential_gives_mock_witness:
  "getenv offline_world ''OPENAI_API_KEY'' = None \<and>
   analyze_with_llm offline_world ''p'' (codepoints ''gpt-4o'') '''' =
     (Inr example,
      [Log INFO ''No OpenAI API key provided; using mock response.'' [],
       Log INFO ''Returning mock LLM response.'' []]) \<and>
   getenv online_world ''ANTHROPIC_API_KEY'' = Some '''' \<and>
   analyze_with_llm online_world ''p'' (codepoints ''claude 3.5 sonnet'') '''' =
     (Inr example,
      [Log INFO ''No Anthropic API key provided; using mock response.'' [],
       Log INFO ''Returning mock LLM response.'' []])"
proof -
  have n1: "lower (unicode_data offline_world) (strip (codepoints ''gpt-4o'')) =
      codepoints ''gpt-4o''"
    by (simp only: demo_tables_worlds lower_gpt_4o)
  have n2: "lower (unicode_data online_world) (strip (codepoints ''claude 3.5 sonnet'')) =
      codepoints ''claude 3.5 sonnet''"
    by (simp only: demo_tables_worlds lower_claude)
  have e1: "getenv offline_world ''OPENAI_API_KEY'' = None"
    by (simp add: offline_world_def)
  have e2: "getenv online_world ''ANTHROPIC_API_KEY'' = Some ''''"
    by (simp add: online_world_def)
  have h1: "(lower (unicode_data offline_world) (strip (codepoints ''gpt-4o'')) =
         codepoints ''gpt-4o'' \<and>
       ''OPENAI_API_KEY'' = ''OPENAI_API_KEY'' \<and>
       ''No OpenAI API key provided; using mock response.'' =
       ''No OpenAI API key provided; using mock response.'') \<or>
      (lower (unicode_data offline_world) (strip (codepoints ''gpt-4o'')) =
         codepoints ''claude 3.5 sonnet'' \<and>
       ''OPENAI_API_KEY'' = ''ANTHROPIC_API_KEY'' \<and>
       ''No OpenAI API key provided; using mock response.'' =
       ''No Anthropic API key provided; using mock response.'')"
    using n1 by simp
  have h2: "(lower (unicode_data online_world) (strip (codepoints ''claude 3.5 sonnet'')) =
         codepoints ''gpt-4o'' \<and>
       ''ANTHROPIC_API_KEY'' = ''OPENAI_API_KEY'' \<and>
       ''No Anthropic API key provided; using mock response.'' =
       ''No OpenAI API key provided; using mock response.'') \<or>
      (lower (unicode_data online_world) (strip (codepoints ''claude 3.5 sonnet'')) =
         codepoints ''claude 3.5 sonnet'' \<and>
       ''ANTHROPIC_API_KEY'' = ''ANTHROPIC_API_KEY'' \<and>
       ''No Anthropic API key provided; using mock response.'' =
       ''No Anthropic API key provided; using mock response.'')"
    using n2 by simp
  have g1: "getenv offline_world ''OPENAI_API_KEY'' = None \<or>
      getenv offline_world ''OPENAI_API_KEY'' = Some ''''"
    using e1 by simp
  have g2: "getenv online_world ''ANTHROPIC_API_KEY'' = None \<or>
      getenv online_world ''ANTHROPIC_API_KEY'' = Some ''''"
    using e2 by simp
  show ?thesis
    using hosted_without_credential_gives_mock [OF h1 g1, of "''p''"]
      hosted_without_credential_gives_mock [OF h2 g2, of "''p''"] e1 e2
    by simp
qed

text \<open>
  \<^bold>\<open>C5.\<close> As the claim states it, every HTTP status outside 200 to 299 makes the call raise
  and the provider fall back to the mock. The code calls \<^verbatim>\<open>raise_for_status\<close>, which raises
  for the statuses 400 to 599 only: below, a daemon that answers with status 300 (and one
  that answers with status 600) and a body that holds a result has its body decoded and
  normalised, nothing is logged, and the result is not the mock.
\<close>

theorem non_2xx_status_counterexample:
  "requests_post (daemon_world 300) ''http://localhost:11434/api/generate''
     (ollama_payload OllamaProvider_default ''p'') 120 =
     Inr \<lparr>status_code = 300,
          json_body = Inr (PDict [(''response'', PStr ''{\"summary\": \"ok\"}'')])\<rparr> \<and>
   \<not> (200 \<le> (300 :: nat) \<and> (300 :: nat) \<le> 299) \<and>
   OllamaProvider_analyze (daemon_world 300) OllamaProvider_default ''p'' =
     (Inr [(''summary'', PStr ''ok''),
           (''traceability_matrix'', PDict []),
           (''missing_requirements'', PList []),
           (''suggestions'', PList []),
           (''detailed_analysis'', PStr '''')],
      [HttpPost ''http://localhost:11434/api/generate''
         (ollama_payload OllamaProvider_default ''p'') 120]) \<and>
   fst (OllamaProvider_analyze (daemon_world 300) OllamaProvider_default ''p'') \<noteq> Inr example \<and>
   status_code (projr (requests_post (daemon_world 600) ''http://localhost:11434/api/generate''
     (ollama_payload OllamaProvider_default ''p'') 120)) = 600 \<and>
   fst (OllamaProvider_analyze (daemon_world 600) OllamaProvider_default ''p'') \<noteq> Inr example"
proof -
  have a: "(300 :: nat) < 400 \<or> 600 \<le> (300 :: nat)" and b: "(600 :: nat) < 400 \<or> 600 \<le> (600 :: nat)"
    by simp_all
  show ?thesis
    unfolding daemon_world_unchecked_status [OF a] daemon_world_unchecked_status [OF b]
    by (simp add: daemon_world_answers example_def)
qed

text \<open>
  \<^bold>\<open>C5\<close>, as amended. When the backend call inside a provider's \<^verbatim>\<open>analyze\<close> raises (any
  exception: a timeout, a refused connection, a rejected credential), or when the local
  daemon answers with a status from 400 to 599 so that \<^verbatim>\<open>raise_for_status\<close> raises, that
  call of \<^verbatim>\<open>analyze\<close> returns the mock result and logs the exception; nothing is raised to
  the caller. This holds for the OpenAI, the Anthropic and the Ollama provider.
\<close>

theorem backend_failure_gives_mock:
  "(openai_create w c (openai_kwargs prompt) = Inl e \<longrightarrow>
      OpenAIProvider_analyze w (OpenAIProvider (Some c)) prompt =
        (Inr example,
         [ChatCompletionsCreate c (openai_kwargs prompt),
          Log ERROR ''OpenAI analysis failed: %s'' [ArgExn e],
          Log INFO ''Returning mock LLM response.'' []])) \<and>
   (anthropic_create w c (anthropic_kwargs prompt) = Inl e \<longrightarrow>
      AnthropicProvider_analyze w (AnthropicProvider (Some c)) prompt =
        (Inr example,
         [MessagesCreate c (anthropic_kwargs prompt),
          Log ERROR ''Anthropic analysis failed: %s'' [ArgExn e],
          Log INFO ''Returning mock LLM response.'' []])) \<and>
   (requests_post w (base_url self @ ''/api/generate'') (ollama_payload self prompt) 120 = Inl e \<longrightarrow>
      OllamaProvider_analyze w self prompt =
        (Inr example,
         [HttpPost (base_url self @ ''/api/generate'') (ollama_payload self prompt) 120,
          Log ERROR ''Ollama analysis failed (is Ollama running?): %s'' [ArgExn e],
          Log INFO ''Returning mock LLM response.'' []])) \<and>
   (requests_post w (base_url self @ ''/api/generate'') (ollama_payload self prompt) 120 = Inr resp \<and>
    400 \<le> status_code resp \<and> status_code resp < 600 \<longrightarrow>
      OllamaProvider_analyze w self prompt =
        (Inr example,
         [HttpPost (base_url self @ ''/api/generate'') (ollama_payload self prompt) 120,
          Log ERROR ''Ollama analysis failed (is Ollama running?): %s''
            [ArgExn (HTTPError (status_code resp))],
          Log INFO ''Returning mock LLM response.'' []]))"
  by (simp add: OpenAIProvider_analyze_def AnthropicProvider_analyze_def
      OllamaProvider_analyze_def try_except_def bind_def call_def raise_for_status_def raise_def
      logger_exception_def MockProvider_analyze_eq)

text \<open>The three backends timing out, and the daemon answering 500. The last line is the
  same timeout seen through the selector.\<close>

theorem backend_failure_gives_mock_witness:
  "fst (OpenAIProvider_analyze offline_world (OpenAIProvider (Some (Client ''x''))) ''p'') =
     Inr example \<and>
   fst (AnthropicProvider_analyze offline_world (AnthropicProvider (Some (Client ''x''))) ''p'') =
     Inr example \<and>
   requests_post offline_world ''http://localhost:11434/api/generate''
     (ollama_payload OllamaProvider_default ''p'') 120 = Inl Timeout \<and>
   OllamaProvider_analyze offline_world OllamaProvider_default ''p'' =
     (Inr example,
      [HttpPost ''http://localhost:11434/api/generate''
         (ollama_payload OllamaProvider_default ''p'') 120,
       Log ERROR ''Ollama analysis failed (is Ollama running?): %s'' [ArgExn Timeout],
       Log INFO ''Returning mock LLM response.'' []]) \<and>
   fst (OllamaProvider_analyze failing_daemon_world OllamaProvider_default ''p'') = Inr example \<and>
   snd (OllamaProvider_analyze failing_daemon_world OllamaProvider_default ''p'') ! 1 =
     Log ERROR ''Ollama analysis failed (is Ollama running?): %s'' [ArgExn (HTTPError 500)] \<and>
   fst (analyze_with_llm offline_world ''p'' (codepoints ''Local Llama 3'') '''') = Inr example"
proof -
  have o: "openai_create offline_world (Client ''x'') (openai_kwargs ''p'') = Inl Timeout"
    by (simp add: offline_world_def)
  have a: "anthropic_create offline_world (Client ''x'') (anthropic_kwargs ''p'') = Inl Timeout"
    by (simp add: offline_world_def)
  have url: "base_url OllamaProvider_default @ ''/api/generate'' =
      ''http://localhost:11434/api/generate''"
    by (simp add: OllamaProvider_default_def)
  have p: "requests_post offline_world ''http://localhost:11434/api/generate''
      (ollama_payload OllamaProvider_default ''p'') 120 = Inl Timeout"
    by (simp add: offline_world_def)
  have q: "requests_post failing_daemon_world ''http://localhost:11434/api/generate''
      (ollama_payload OllamaProvider_default ''p'') 120 =
      Inr \<lparr>status_code = 500, json_body = Inl JSONDecodeError\<rparr>"
    by (simp add: failing_daemon_world_def offline_world_def)
  have n: "lower (unicode_data offline_world) (strip (codepoints ''Local Llama 3'')) =
      codepoints ''local llama 3''"
    by (simp only: demo_tables_worlds lower_local_llama)
  have ne: "codepoints ''local llama 3'' \<noteq> codepoints ''gpt-4o''"
    "codepoints ''local llama 3'' \<noteq> codepoints ''claude 3.5 sonnet''"
    by (simp_all add: codepoints_def)
  have sel: "analyze_with_llm offline_world ''p'' (codepoints ''Local Llama 3'') '''' =
      OllamaProvider_analyze offline_world OllamaProvider_default ''p''"
    by (simp add: analyze_with_llm_def py_or_def n ne)
  show ?thesis
    using backend_failure_gives_mock
        [of offline_world "Client ''x''" "''p''" Timeout OllamaProvider_default
          "\<lparr>status_code = 500, json_body = Inl JSONDecodeError\<rparr>"]
      backend_failure_gives_mock
        [of failing_daemon_world "Client ''x''" "''p''" Timeout OllamaProvider_default
          "\<lparr>status_code = 500, json_body = Inl JSONDecodeError\<rparr>"]
      o a p q sel
    by (simp add: url)
qed

text \<open>
  \<^bold>\<open>C9.\<close> As the claim states it, any two names that differ only in letter case select the
  same provider. The code compares \<^verbatim>\<open>model_name.strip().lower()\<close>, and \<^verbatim>\<open>str.lower\<close> leaves
  the small letter U+017F (long s, whose capital is S) alone: \<^verbatim>\<open>CLAUDE 3.5 SONNET\<close> selects
  the Anthropic provider, and the same name in small letters written with a long s is an
  unknown model and gets the mock.
\<close>

theorem long_s_counterexample:
  "list_all2 case_variant (codepoints ''CLAUDE 3.5 SONNET'')
     (codepoints ''claude 3.5 '' @ [383] @ codepoints ''onnet'') \<and>
   analyze_with_llm online_world ''p'' (codepoints ''CLAUDE 3.5 SONNET'') ''x'' =
     (Inr [(''summary'', PStr ''ok''),
           (''traceability_matrix'', PDict []),
           (''missing_requirements'', PList []),
           (''suggestions'', PList []),
           (''detailed_analysis'', PStr '''')],
      [NewClient ''Anthropic'' ''x'',
       MessagesCreate (Client ''x'') (anthropic_kwargs ''p'')]) \<and>
   analyze_with_llm online_world ''p''
       (codepoints ''claude 3.5 '' @ [383] @ codepoints ''onnet'') ''x'' =
     (Inr example,
      [Log INFO ''Unknown model '%s'; defaulting to mock.''
         [ArgStr (codepoints ''claude 3.5 '' @ [383] @ codepoints ''onnet'')],
       Log INFO ''Returning mock LLM response.'' []]) \<and>
   analyze_with_llm online_world ''p'' (codepoints ''CLAUDE 3.5 SONNET'') ''x'' \<noteq>
   analyze_with_llm online_world ''p''
       (codepoints ''claude 3.5 '' @ [383] @ codepoints ''onnet'') ''x''"
proof -
  have a: "analyze_with_llm online_world ''p'' (codepoints ''CLAUDE 3.5 SONNET'') ''x'' =
      (Inr [(''summary'', PStr ''ok''),
            (''traceability_matrix'', PDict []),
            (''missing_requirements'', PList []),
            (''suggestions'', PList []),
            (''detailed_analysis'', PStr '''')],
       [NewClient ''Anthropic'' ''x'',
        MessagesCreate (Client ''x'') (anthropic_kwargs ''p'')])"
    by (simp add: analyze_with_llm_def Let_def py_or_empty demo_tables_worlds
        lower_claude_capitals known_names_differ py_or_def [of "''x''"] anthropic_online)
  have b: "analyze_with_llm online_world ''p''
        (codepoints ''claude 3.5 '' @ [383] @ codepoints ''onnet'') ''x'' =
      (Inr example,
       [Log INFO ''Unknown model '%s'; defaulting to mock.''
          [ArgStr (codepoints ''claude 3.5 '' @ [383] @ codepoints ''onnet'')],
        Log INFO ''Returning mock LLM response.'' []])"
    by (simp only: analyze_with_llm_def py_or_empty demo_tables_worlds lower_long_s Let_def
        long_s_differs if_False info_then_mock)
  show ?thesis
    unfolding a b using long_s_variant by (simp add: example_def)
qed

text \<open>
  \<^bold>\<open>C9\<close>, as amended. Model names that differ only in the case of the letters A to Z or
  in whitespace around them are treated alike: when \<open>b\<close> is \<open>a\<close> with some of those letters
  in the other case (every other code point unchanged), and \<open>l\<close>, \<open>r\<close>, \<open>l'\<close>, \<open>r'\<close> are runs
  of whitespace, the calls with the names \<open>l @ a @ r\<close> and \<open>l' @ b @ r'\<close> (same machine,
  prompt and credential) do the same thing: the same result and the same events, so the
  same provider is selected. This holds whatever the interpreter's table says about the code
  points from U+0080 on.
\<close>

theorem model_name_matching_invariant:
  assumes "list_all2 ascii_case_variant a b"
    and "list_all isspace l" and "list_all isspace r"
    and "list_all isspace l'" and "list_all isspace r'"
  shows "analyze_with_llm w prompt (l @ a @ r) api_key =
         analyze_with_llm w prompt (l' @ b @ r') api_key"
proof -
  have "lower (unicode_data w) (strip (l @ a @ r)) =
      lower (unicode_data w) (strip (l' @ b @ r'))"
    using assms
    by (simp add: strip_padding ascii_case_variant_strip ascii_case_variant_lower)
  then show ?thesis
    by (simp add: analyze_with_llm_def py_or_empty)
qed

text \<open>\<^verbatim>\<open>GPT-4o\<close> and \<^verbatim>\<open>gpt-4o\<close> with the credential \<^verbatim>\<open>x\<close>, and the first name padded with
  blanks and a tab: the OpenAI client is constructed with the key in each case.\<close>

theorem model_name_matching_invariant_witness:
  "list_all2 ascii_case_variant (codepoints ''GPT-4o'') (codepoints ''gpt-4o'') \<and>
   analyze_with_llm online_world ''p'' (codepoints ''GPT-4o'') ''x'' =
   analyze_with_llm online_world ''p'' (codepoints ''gpt-4o'') ''x'' \<and>
   analyze_with_llm online_world ''p'' ([32, 9] @ codepoints ''GPT-4o'' @ [32]) ''x'' =
   analyze_with_llm online_world ''p'' (codepoints ''gpt-4o'') ''x'' \<and>
   hd (snd (analyze_with_llm online_world ''p'' (codepoints ''gpt-4o'') ''x'')) =
     NewClient ''OpenAI'' ''x''"
proof -
  have cv: "list_all2 ascii_case_variant (codepoints ''GPT-4o'') (codepoints ''gpt-4o'')"
    by (simp add: ascii_case_variant_def ascii_letters_def codepoints_def)
  have e: "list_all isspace []"
    by simp
  have l: "list_all isspace [32, 9]"
    by (simp add: isspace_def)
  have r: "list_all isspace [32]"
    by (simp add: isspace_def)
  have run: "hd (snd (analyze_with_llm online_world ''p'' (codepoints ''gpt-4o'') ''x'')) =
      NewClient ''OpenAI'' ''x''"
    by (simp add: analyze_with_llm_def Let_def py_or_empty demo_tables_worlds lower_gpt_4o
        py_or_def [of "''x''"] openai_online_hd)
  show ?thesis
    using model_name_matching_invariant [OF cv e e e e, of online_world "''p''" "''x''"]
      model_name_matching_invariant [OF cv l r e e, of online_world "''p''" "''x''"] cv run
    by simp
qed

end
